theory Spec2Isabelle
  imports Complex_Main "HOL-Library.Word"
begin

section \<open>The production line of \<^verbatim>\<open>mchu7gk2/armChallenge\<close>\<close>

text \<open>
  The repository holds two programs for the same exercise. The C++ core
  (classes \<^verbatim>\<open>ItemType\<close>, \<^verbatim>\<open>Worker\<close>, \<^verbatim>\<open>Belt\<close>, \<^verbatim>\<open>ProductionLine\<close>) keeps item kinds as
  heap objects and passes pointers to them around; \<^verbatim>\<open>simple.c\<close> is a rewrite on a
  plain array of bytes. Both are embedded below, function by function.

  Conventions of the embedding:
  \<^item> an \<^verbatim>\<open>ItemType*\<close> is an address (\<open>ptr\<close>), the null pointer is \<open>None\<close>, and the
    objects live in a store \<open>ptr \<Rightarrow> ItemType\<close>; pointer equality of the source is
    equality of addresses;
  \<^item> the intrusive linked lists (\<^verbatim>\<open>nextItemType\<close>, \<^verbatim>\<open>nextWorker\<close>) are HOL lists, head
    first; an object is linked into a list at most once;
  \<^item> \<^verbatim>\<open>u32int\<close>, \<^verbatim>\<open>u64int\<close> and \<^verbatim>\<open>int\<close> are words of that width, so that \<^verbatim>\<open>++\<close>, \<^verbatim>\<open>--\<close>
    and \<^verbatim>\<open>+=\<close> wrap around as in the source;
  \<^item> \<^verbatim>\<open>probability\<close> (a C \<^verbatim>\<open>float\<close>) is a single-precision value: a real number that
    every operation rounds to 24 significant bits, an infinity, or not a number;
  \<^item> the random source \<^verbatim>\<open>getRandomNumber\<close> is a parameter \<open>rnd\<close>, the sequence of
    its results, and the state counts the draws made so far.
\<close>

subsection \<open>Item kinds\<close>

type_synonym u64int = "64 word"
type_synonym u32int = "32 word"
type_synonym ascii = "8 word"
type_synonym ptr = nat

subsection \<open>Single-precision arithmetic\<close>

text \<open>
  \<^verbatim>\<open>typedef float probability\<close>. A value is a real number with a significand of 24 bits,
  one of the two infinities, or not a number. The sign of a zero is not kept, and the
  exponent is not bounded: numbers of a magnitude between \<open>1 / 2 ^ 126\<close> and \<open>2 ^ 128\<close>
  are rounded as the hardware rounds them, and the quotients, sums and products of this
  program lie there.
\<close>

datatype probability = Finite real | PlusInfinity | MinusInfinity | NotANumber

text \<open>Rounding to the nearest integer, a tie going to the even one.\<close>

definition roundNearestEven :: "real \<Rightarrow> int" where
  "roundNearestEven y =
     (let m = \<lfloor>y\<rfloor>; d = y - of_int m
      in if d < 1 / 2 then m else if 1 / 2 < d then m + 1 else if even m then m else m + 1)"

text \<open>
  A positive number \<open>y\<close> is doubled or halved until it lies between \<open>2 ^ 23\<close> and \<open>2 ^ 24\<close>;
  \<open>c\<close> collects the power of two that undoes the scaling, and \<open>n\<close> bounds the number of
  steps.
\<close>

fun scaleToSignificand :: "nat \<Rightarrow> real \<Rightarrow> real \<Rightarrow> real \<times> real" where
  "scaleToSignificand n y c =
     (if n = 0 \<or> (8388608 \<le> y \<and> y < 16777216) then (y, c)
      else if 16777216 \<le> y then scaleToSignificand (n - 1) (y / 2) (2 * c)
      else scaleToSignificand (n - 1) (2 * y) (c / 2))"

declare scaleToSignificand.simps [simp del]

text \<open>
  The conversion of a real number to \<^verbatim>\<open>float\<close>, rounding to nearest: what a cast, a
  division, a sum or a product delivers. 256 scaling steps are more than the exponent
  range of the format asks for.
\<close>

definition toFloat :: "real \<Rightarrow> real" where
  "toFloat x =
     (if x = 0 then 0
      else let (y, c) = scaleToSignificand 256 \<bar>x\<bar> 1
           in sgn x * (of_int (roundNearestEven y) * c))"

lemmas float_simps = toFloat_def scaleToSignificand.simps roundNearestEven_def Let_def

fun fadd :: "probability \<Rightarrow> probability \<Rightarrow> probability" where
  "fadd (Finite a) (Finite b) = Finite (toFloat (a + b))"
| "fadd NotANumber _ = NotANumber"
| "fadd _ NotANumber = NotANumber"
| "fadd PlusInfinity MinusInfinity = NotANumber"
| "fadd MinusInfinity PlusInfinity = NotANumber"
| "fadd PlusInfinity _ = PlusInfinity"
| "fadd _ PlusInfinity = PlusInfinity"
| "fadd MinusInfinity _ = MinusInfinity"
| "fadd _ MinusInfinity = MinusInfinity"

fun fneg :: "probability \<Rightarrow> probability" where
  "fneg (Finite a) = Finite (- a)"
| "fneg PlusInfinity = MinusInfinity"
| "fneg MinusInfinity = PlusInfinity"
| "fneg NotANumber = NotANumber"

definition fsub :: "probability \<Rightarrow> probability \<Rightarrow> probability" where
  "fsub a b = fadd a (fneg b)"

text \<open>The infinity that has the sign of \<open>a\<close> when \<open>positive\<close> holds, and the other one otherwise.\<close>

definition infinityOf :: "bool \<Rightarrow> probability" where
  "infinityOf positive = (if positive then PlusInfinity else MinusInfinity)"

fun fmul :: "probability \<Rightarrow> probability \<Rightarrow> probability" where
  "fmul (Finite a) (Finite b) = Finite (toFloat (a * b))"
| "fmul NotANumber _ = NotANumber"
| "fmul _ NotANumber = NotANumber"
| "fmul (Finite a) PlusInfinity = (if a = 0 then NotANumber else infinityOf (0 < a))"
| "fmul (Finite a) MinusInfinity = (if a = 0 then NotANumber else infinityOf (a < 0))"
| "fmul PlusInfinity (Finite b) = (if b = 0 then NotANumber else infinityOf (0 < b))"
| "fmul MinusInfinity (Finite b) = (if b = 0 then NotANumber else infinityOf (b < 0))"
| "fmul PlusInfinity PlusInfinity = PlusInfinity"
| "fmul MinusInfinity MinusInfinity = PlusInfinity"
| "fmul PlusInfinity MinusInfinity = MinusInfinity"
| "fmul MinusInfinity PlusInfinity = MinusInfinity"

text \<open>
  Division. A zero divisor is the positive zero here, since the divisors of this program
  are casts of unsigned integers: \<open>0 / 0\<close> is not a number and \<open>a / 0\<close> an infinity.
\<close>

fun fdiv :: "probability \<Rightarrow> probability \<Rightarrow> probability" where
  "fdiv (Finite a) (Finite b) =
     (if b = 0 then (if a = 0 then NotANumber else infinityOf (0 < a))
      else Finite (toFloat (a / b)))"
| "fdiv NotANumber _ = NotANumber"
| "fdiv _ NotANumber = NotANumber"
| "fdiv (Finite a) _ = Finite 0"
| "fdiv PlusInfinity (Finite b) = infinityOf (0 \<le> b)"
| "fdiv MinusInfinity (Finite b) = infinityOf (b < 0)"
| "fdiv _ _ = NotANumber"

text \<open>The comparison \<^verbatim>\<open><=\<close>, which is false as soon as one side is not a number.\<close>

fun fle :: "probability \<Rightarrow> probability \<Rightarrow> bool" where
  "fle (Finite a) (Finite b) = (a \<le> b)"
| "fle NotANumber _ = False"
| "fle _ NotANumber = False"
| "fle MinusInfinity _ = True"
| "fle _ PlusInfinity = True"
| "fle _ _ = False"

text \<open>The casts \<^verbatim>\<open>(probability) w\<close> of a \<^verbatim>\<open>u32int\<close> and of a \<^verbatim>\<open>u64int\<close>.\<close>

definition castToFloat :: "'a::len word \<Rightarrow> probability" where
  "castToFloat w = Finite (toFloat (real (unat w)))"

text \<open>
  The fields of class \<^verbatim>\<open>ItemType\<close>. Field \<^verbatim>\<open>id\<close> is \<open>itemId\<close> here (\<open>id\<close> is the
  identity function of HOL). \<open>componentsRequired\<close> is \<open>None\<close> for the null pointer
  and otherwise the entries of the array before its terminating null.
\<close>

record ItemType =
  name :: ascii
  itemId :: u32int
  weight :: u32int
  generationProbability :: probability
  numberCollected :: u32int
  componentsRequired :: "ptr list option"

type_synonym store = "ptr \<Rightarrow> ItemType"

definition NULL_ITEM_ID :: u32int where
  "NULL_ITEM_ID = - 1"

definition ASSEMBLE_TIME :: u32int where
  "ASSEMBLE_TIME = 4"

definition incrementNumberCollected :: "ItemType \<Rightarrow> ItemType" where
  "incrementNumberCollected t = t\<lparr>numberCollected := numberCollected t + 1\<rparr>"

text \<open>
  \<^verbatim>\<open>ItemType::assemble\<close>, called on the object at address \<open>self\<close> with the
  null-terminated array \<open>componentsAvailable\<close>: every required component must have an
  available one of the same id. The result is \<^verbatim>\<open>this\<close> or the null pointer.
\<close>

definition assemble :: "store \<Rightarrow> ptr \<Rightarrow> ptr list \<Rightarrow> ptr option" where
  "assemble h self componentsAvailable =
     (case componentsRequired (h self) of
        None \<Rightarrow> None
      | Some required \<Rightarrow>
          if list_all (\<lambda>x. list_ex (\<lambda>y. itemId (h y) = itemId (h x)) componentsAvailable) required
          then Some self else None)"

subsection \<open>Workers of the C++ core\<close>

text \<open>
  The fields of class \<^verbatim>\<open>Worker\<close> that the code reads (\<^verbatim>\<open>name\<close> is never set or read).
  Field \<^verbatim>\<open>weight\<close> is \<open>workerWeight\<close> here, since \<open>weight\<close> is the field of \<open>ItemType\<close>.
\<close>

record Worker =
  position :: u32int
  workerWeight :: u32int
  workProbability :: probability
  doneWork :: bool
  amAssembling :: u32int
  leftHand :: "ptr option"
  rightHand :: "ptr option"

text \<open>The state that the constructor \<^verbatim>\<open>Worker()\<close> sets up.\<close>

definition Worker_new :: Worker where
  "Worker_new = \<lparr>position = 0, workerWeight = 0, workProbability = Finite 0, doneWork = False,
     amAssembling = 0, leftHand = None, rightHand = None\<rparr>"

datatype error = NullDereference | IndexOutOfRange

text \<open>The test \<^verbatim>\<open>it == NULL || it->getId() == NULL_ITEM_ID\<close> of \<^verbatim>\<open>Worker::doWork\<close>.\<close>

definition slotIsEmpty :: "store \<Rightarrow> ptr option \<Rightarrow> bool" where
  "slotIsEmpty h it = (case it of None \<Rightarrow> True | Some a \<Rightarrow> itemId (h a) = NULL_ITEM_ID)"

text \<open>
  The two pick-up statements of \<^verbatim>\<open>Worker::doWork\<close>, in the order of the source: each
  returns the worker and the value of \<^verbatim>\<open>out\<close>.
\<close>

definition pickLeft :: "ptr option \<Rightarrow> Worker \<times> ptr option \<Rightarrow> Worker \<times> ptr option" where
  "pickLeft it wo =
     (let (w, out) = wo in
      if leftHand w = None \<and> it \<noteq> rightHand w then (w\<lparr>leftHand := it\<rparr>, None) else (w, out))"

definition pickRight :: "ptr option \<Rightarrow> Worker \<times> ptr option \<Rightarrow> Worker \<times> ptr option" where
  "pickRight it wo =
     (let (w, out) = wo in
      if rightHand w = None \<and> it \<noteq> leftHand w then (w\<lparr>rightHand := it\<rparr>, None) else (w, out))"

text \<open>
  \<^verbatim>\<open>Worker::doWork\<close>. \<open>it\<close> is the item offered, \<open>finishedProductsToBuild\<close> the head of
  the list of finished kinds. The result is the new content of the slot and the worker.
  With both hands full and no countdown running the source calls \<^verbatim>\<open>assemble\<close> through
  \<^verbatim>\<open>finishedThing\<close>; on a null pointer that is a null dereference.
\<close>

definition Worker_doWork ::
  "store \<Rightarrow> Worker \<Rightarrow> ptr option \<Rightarrow> ptr option \<Rightarrow> error + (ptr option \<times> Worker)" where
  "Worker_doWork h w0 it finishedProductsToBuild =
     (let finishedThing = finishedProductsToBuild;
          w = w0\<lparr>doneWork := True\<rparr>
      in if 0 < amAssembling w then
           (let w1 = w\<lparr>amAssembling := amAssembling w - 1\<rparr>
            in Inr (if amAssembling w1 = 0 then finishedThing else it, w1))
         else
           (let (w2, out) =
                  (if \<not> slotIsEmpty h it then pickRight it (pickLeft it (w, it)) else (w, it))
            in case (leftHand w2, rightHand w2) of
                 (Some l, Some r) \<Rightarrow>
                   (case finishedThing of
                      None \<Rightarrow> Inl NullDereference
                    | Some f \<Rightarrow>
                        if assemble h f [l, r] \<noteq> None
                        then Inr (out, w2\<lparr>amAssembling := ASSEMBLE_TIME\<rparr>)
                        else Inr (out, w2))
               | _ \<Rightarrow> Inr (out, w2)))"

text \<open>
  A run of activations of one worker: each activation is given the store of that moment
  (the counters of the objects change between steps) and the item offered.
\<close>

fun activations :: "ptr option \<Rightarrow> Worker \<Rightarrow> (store \<times> ptr option) list \<Rightarrow> error + Worker" where
  "activations fin w [] = Inr w"
| "activations fin w ((h, it) # offers) =
     (case Worker_doWork h w it fin of
        Inl e \<Rightarrow> Inl e
      | Inr (out, w') \<Rightarrow> activations fin w' offers)"

subsection \<open>The belt of the C++ core\<close>

text \<open>
  The fields of class \<^verbatim>\<open>Belt\<close>. \<^verbatim>\<open>beltSlots\<close> points to a block that the constructor
  allocates with \<^verbatim>\<open>malloc (slots * sizeof(ItemType))\<close>, which is more than \<open>slots\<close>
  pointers: the block is modelled as cells addressed by a C \<^verbatim>\<open>int\<close> index, of which
  the cells \<open>0 .. numberOfSlots - 1\<close> are the slots of the belt. An \<^verbatim>\<open>int\<close> of the
  source is a 32-bit word (\<open>cint\<close>) read with \<open>sint\<close>.
\<close>

type_synonym cint = "32 word"

record Belt =
  numberOfSlots :: u32int
  workers :: "Worker list"
  itemsToMake :: "ptr list"
  finishedItems :: "ptr list"
  totalItemWeighting :: u64int
  totalWorkerWeighting :: u64int
  currentWorkerMaxProbability :: probability
  beltSlots :: "int \<Rightarrow> ptr option"

text \<open>
  The whole state a run works on: the belt, the \<^verbatim>\<open>ItemType\<close> objects that its
  pointers refer to, and the number of calls of \<^verbatim>\<open>getRandomNumber\<close> made so far.
\<close>

record Sim = Belt +
  objects :: store
  draws :: nat

text \<open>
  The constructor \<^verbatim>\<open>Belt(int slots)\<close>, given the store and the content \<open>mem\<close> of the
  fresh block. The source does not initialise \<^verbatim>\<open>finishedItems\<close>; the model starts it
  as the empty list.
\<close>

definition Belt_new :: "cint \<Rightarrow> (int \<Rightarrow> ptr option) \<Rightarrow> store \<Rightarrow> Sim" where
  "Belt_new slots mem h =
     \<lparr>numberOfSlots = slots, workers = [], itemsToMake = [], finishedItems = [],
      totalItemWeighting = 0, totalWorkerWeighting = 0,
      currentWorkerMaxProbability = Finite 1,
      beltSlots = (\<lambda>i. if 0 \<le> i \<and> i < sint slots then None else mem i),
      objects = h, draws = 0\<rparr>"

text \<open>
  \<^verbatim>\<open>Belt::addWorker\<close>: the new worker becomes the head of the list, and the work
  probability of every worker is recomputed from the new total, as the quotient of the
  two casts.
\<close>

definition addWorker :: "Worker \<Rightarrow> u32int \<Rightarrow> u32int \<Rightarrow> Sim \<Rightarrow> Sim" where
  "addWorker newWorker pos weighting s =
     (let total = totalWorkerWeighting s + ucast weighting;
          ws = newWorker\<lparr>position := pos, workerWeight := weighting\<rparr> # workers s
      in s\<lparr>workers :=
              map (\<lambda>wk. wk\<lparr>workProbability :=
                              fdiv (castToFloat (workerWeight wk)) (castToFloat total)\<rparr>) ws,
            totalWorkerWeighting := total,
            currentWorkerMaxProbability := Finite 1\<rparr>)"

text \<open>
  \<^verbatim>\<open>Belt::addItemFactory\<close>: the new kind becomes the head of the list, and the loop
  over the list stores the quotient of the casts of weight and total in every kind.
\<close>

definition addItemFactory :: "ptr \<Rightarrow> u32int \<Rightarrow> Sim \<Rightarrow> Sim" where
  "addItemFactory newType weighting s =
     (let items = newType # itemsToMake s;
          h1 = (objects s)(newType := (objects s newType)\<lparr>weight := weighting\<rparr>);
          total = totalItemWeighting s + ucast weighting
      in s\<lparr>itemsToMake := items,
            totalItemWeighting := total,
            objects :=
              fold (\<lambda>it h. h(it := (h it)\<lparr>generationProbability :=
                                   fdiv (castToFloat (weight (h it))) (castToFloat total)\<rparr>))
                items h1\<rparr>)"

definition addFinishedItem :: "ptr \<Rightarrow> Sim \<Rightarrow> Sim" where
  "addFinishedItem fit s = s\<lparr>finishedItems := fit # finishedItems s\<rparr>"

definition getFinishedItems :: "Sim \<Rightarrow> ptr option" where
  "getFinishedItems s = (case finishedItems s of [] \<Rightarrow> None | fit # _ \<Rightarrow> Some fit)"

text \<open>The loop of \<^verbatim>\<open>Belt::getNextItem\<close> over the list of kinds.\<close>

fun getNextItem_loop :: "store \<Rightarrow> probability \<Rightarrow> probability \<Rightarrow> ptr list \<Rightarrow> ptr option" where
  "getNextItem_loop h p cumulative [] = None"
| "getNextItem_loop h p cumulative (it # rest) =
     (let c = fadd cumulative (generationProbability (h it))
      in if fle p c then Some it else getNextItem_loop h p c rest)"

text \<open>
  \<^verbatim>\<open>Belt::getNextItem\<close>. The draw \<open>rnd (draws s)\<close> is the finite \<^verbatim>\<open>float\<close> that
  \<^verbatim>\<open>getRandomNumber\<close> returns.
\<close>

definition getNextItem :: "(nat \<Rightarrow> real) \<Rightarrow> Sim \<Rightarrow> ptr option \<times> Sim" where
  "getNextItem rnd s =
     (getNextItem_loop (objects s) (Finite (rnd (draws s))) (Finite 0) (itemsToMake s),
      s\<lparr>draws := draws s + 1\<rparr>)"

text \<open>
  The loop of \<^verbatim>\<open>Belt::getNextWorker\<close>; a worker is named by its place \<open>k\<close> in the
  list of workers.
\<close>

fun getNextWorker_loop :: "probability \<Rightarrow> probability \<Rightarrow> nat \<Rightarrow> Worker list \<Rightarrow> nat option" where
  "getNextWorker_loop p cumulative k [] = None"
| "getNextWorker_loop p cumulative k (wk # rest) =
     (if doneWork wk then getNextWorker_loop p cumulative (Suc k) rest
      else let c = fadd cumulative (workProbability wk)
           in if fle p c then Some k else getNextWorker_loop p c (Suc k) rest)"

definition getNextWorker :: "(nat \<Rightarrow> real) \<Rightarrow> Sim \<Rightarrow> nat option \<times> Sim" where
  "getNextWorker rnd s =
     (let p = fmul (Finite (rnd (draws s))) (currentWorkerMaxProbability s);
          s1 = s\<lparr>draws := draws s + 1\<rparr>
      in case getNextWorker_loop p (Finite 0) 0 (workers s) of
           None \<Rightarrow> (None, s1)
         | Some k \<Rightarrow>
             (Some k, s1\<lparr>currentWorkerMaxProbability :=
                           fsub (currentWorkerMaxProbability s)
                             (workProbability (workers s ! k))\<rparr>))"

definition setSlot :: "ptr option \<Rightarrow> u32int \<Rightarrow> Sim \<Rightarrow> Sim" where
  "setSlot itemType slot s = s\<lparr>beltSlots := (beltSlots s)(uint slot := itemType)\<rparr>"

definition getSlot :: "u32int \<Rightarrow> Sim \<Rightarrow> ptr option" where
  "getSlot slot s = beltSlots s (uint slot)"

text \<open>
  The first loop of \<^verbatim>\<open>Belt::advanceBelt\<close>,
  \<^verbatim>\<open>for (int i = lastSlot; i > (lastSlot - n); i--)\<close>: the comparison is unsigned,
  since \<^verbatim>\<open>lastSlot\<close> is a \<^verbatim>\<open>u32int\<close>. \<open>bound\<close> is \<open>lastSlot - n\<close>.
\<close>

function advanceBelt_count :: "(int \<Rightarrow> ptr option) \<Rightarrow> u32int \<Rightarrow> cint \<Rightarrow> store \<Rightarrow> store" where
  "advanceBelt_count slots bound i h =
     (if bound < i then
        advanceBelt_count slots bound (i - 1)
          (case slots (sint i) of
             None \<Rightarrow> h
           | Some it \<Rightarrow> h(it := incrementNumberCollected (h it)))
      else h)"
  by pat_completeness auto
termination
proof (relation "measure (\<lambda>(slots, bound, i, h). unat i)")
  show "wf (measure (\<lambda>(slots, bound, i, h). unat i))"
    by simp
next
  fix slots :: "int \<Rightarrow> ptr option" and bound i :: u32int and h :: store
  assume "bound < i"
  then have "i \<noteq> 0"
    by auto
  then have "unat (i - 1) < unat i"
    by (simp add: unat_minus_one unat_gt_0)
  then show "((slots, bound, i - 1,
                case slots (sint i) of
                  None \<Rightarrow> h
                | Some it \<Rightarrow> h(it := incrementNumberCollected (h it))),
               slots, bound, i, h)
             \<in> measure (\<lambda>(slots, bound, i, h). unat i)"
    by simp
qed

text \<open>
  The second loop, \<^verbatim>\<open>for (int i = numberOfSlots; i > 0; i--)\<close>, with its signed
  comparisons \<^verbatim>\<open>i > 0\<close> and \<^verbatim>\<open>i >= n\<close>.
\<close>

function advanceBelt_move :: "cint \<Rightarrow> cint \<Rightarrow> (int \<Rightarrow> ptr option) \<Rightarrow> (int \<Rightarrow> ptr option)" where
  "advanceBelt_move n i slots =
     (if 0 <s i then
        advanceBelt_move n (i - 1)
          (if n \<le>s i then slots(sint i := slots (sint (i - n))) else slots(sint i := None))
      else slots)"
  by pat_completeness auto
termination
proof (relation "measure (\<lambda>(n, i, slots). nat (sint i))")
  show "wf (measure (\<lambda>(n, i, slots). nat (sint i)))"
    by simp
next
  fix n i :: cint and slots :: "int \<Rightarrow> ptr option"
  assume "0 <s i"
  then have pos: "0 < sint i"
    by (simp add: word_sless_alt)
  have "sint i < 2 ^ 31"
    using sint_lt [of i] by simp
  with pos have "signed_take_bit 31 (sint i - 1) = sint i - 1"
    by (intro signed_take_bit_int_eq_self) auto
  then have "sint (i - 1) = sint i - 1"
    by (simp add: sint_word_ariths)
  with pos show "((n, i - 1,
                    if n \<le>s i then slots(sint i := slots (sint (i - n)))
                    else slots(sint i := None)),
                   n, i, slots)
                 \<in> measure (\<lambda>(n, i, slots). nat (sint i))"
    by simp
qed

text \<open>
  The two loop equations are kept out of the simplifier's default rules, and are given to
  it together with the signed comparisons where a loop is run on concrete numbers.
\<close>

declare advanceBelt_count.simps [simp del]

declare advanceBelt_move.simps [simp del]

lemmas loop_simps =
  advanceBelt_count.simps advanceBelt_move.simps word_sless_alt word_sle_eq

text \<open>\<^verbatim>\<open>Belt::advanceBelt\<close>: count what leaves the belt, move the slots, reset the workers.\<close>

definition advanceBelt :: "cint \<Rightarrow> Sim \<Rightarrow> Sim" where
  "advanceBelt n s =
     (let lastSlot = numberOfSlots s - 1
      in s\<lparr>beltSlots := advanceBelt_move n (numberOfSlots s) (beltSlots s),
            currentWorkerMaxProbability := Finite 1,
            workers := map (\<lambda>wk. wk\<lparr>doneWork := False\<rparr>) (workers s),
            objects := advanceBelt_count (beltSlots s) (lastSlot - n) lastSlot (objects s)\<rparr>)"

subsection \<open>The step loop of the C++ core\<close>

datatype stop = NoItemSelected | Fault error

text \<open>
  \<^verbatim>\<open>ProductionLine::runSim\<close>. The result is \<open>None\<close> when all steps ran, and the reason
  otherwise, with the state at that moment. \<open>steps\<close> counts the iterations still to run.
  When \<^verbatim>\<open>getNextWorker\<close> returns the null pointer, \<^verbatim>\<open>wk->getPosition()\<close> dereferences it.
\<close>

fun runSim :: "(nat \<Rightarrow> real) \<Rightarrow> nat \<Rightarrow> Sim \<Rightarrow> stop option \<times> Sim" where
  "runSim rnd 0 s = (None, s)"
| "runSim rnd (Suc steps) s =
     (case getNextItem rnd s of
        (None, s1) \<Rightarrow> (Some NoItemSelected, s1)
      | (Some next, s1) \<Rightarrow>
          (let s2 = setSlot (Some next) 0 (advanceBelt 1 s1)
           in case getNextWorker rnd s2 of
                (None, s3) \<Rightarrow> (Some (Fault NullDereference), s3)
              | (Some k, s3) \<Rightarrow>
                  (let wk = workers s3 ! k;
                       workerPosition = position wk;
                       it = getSlot workerPosition s3
                   in case Worker_doWork (objects s3) wk it (getFinishedItems s3) of
                        Inl e \<Rightarrow> (Some (Fault e), s3)
                      | Inr (newIt, wk') \<Rightarrow>
                          runSim rnd steps
                            (setSlot newIt workerPosition
                               (s3\<lparr>workers := (workers s3)[k := wk']\<rparr>)))))"

subsection \<open>The worker of \<^verbatim>\<open>simple.c\<close>\<close>

definition COMPONENT_NULL :: ascii where
  "COMPONENT_NULL = 0"



definition COMPONENT_P :: ascii where
  "COMPONENT_P = 3"

definition TIME_TO_BUILD_COMPONENT_P :: u32int where
  "TIME_TO_BUILD_COMPONENT_P = 4"

record worker =
  pos :: u32int
  left :: ascii
  right :: ascii
  buildTimeLeft :: u32int

text \<open>
  \<^verbatim>\<open>doWork\<close> reads the belt through a pointer to plain \<^verbatim>\<open>char\<close>, while the hands of a
  worker are \<^verbatim>\<open>unsigned char\<close>. Whether plain \<^verbatim>\<open>char\<close> is signed is left to the platform,
  so it is a parameter: \<open>charValue\<close> is the integer that a cell of the belt is promoted
  to in a comparison, and a hand is promoted to \<open>uint\<close>.
\<close>

definition charValue :: "bool \<Rightarrow> ascii \<Rightarrow> int" where
  "charValue charIsSigned c = (if charIsSigned then sint c else uint c)"

text \<open>
  The part of \<^verbatim>\<open>doWork\<close> after the countdown: placing a finished item, or picking up
  a raw component. The belt is the array \<open>slots\<close>; an index outside it is an error.
\<close>

definition doWork_hands ::
  "bool \<Rightarrow> worker \<Rightarrow> ascii list \<Rightarrow> error + (worker \<times> ascii list)" where
  "doWork_hands charIsSigned w slots =
     (let p = unat (pos w)
      in if \<not> p < length slots then Inl IndexOutOfRange
         else let here = charValue charIsSigned (slots ! p)
           in if right w = COMPONENT_P then
                (if here = uint COMPONENT_NULL
                 then Inr (w\<lparr>left := COMPONENT_NULL, right := COMPONENT_NULL\<rparr>,
                           slots[p := COMPONENT_P])
                 else Inr (w, slots))
              else if here \<noteq> uint COMPONENT_NULL \<and> here \<noteq> uint COMPONENT_P then
                (if right w = COMPONENT_NULL
                 then Inr (w\<lparr>right := slots ! p\<rparr>, slots[p := COMPONENT_NULL])
                 else if uint (right w) \<noteq> here
                 then Inr (w\<lparr>left := slots ! p,
                             buildTimeLeft := TIME_TO_BUILD_COMPONENT_P\<rparr>,
                           slots[p := COMPONENT_NULL])
                 else Inr (w, slots))
              else Inr (w, slots))"

text \<open>\<^verbatim>\<open>doWork\<close> of \<^verbatim>\<open>simple.c\<close>: the countdown first, then the hands.\<close>

definition doWork ::
  "bool \<Rightarrow> worker \<Rightarrow> ascii list \<Rightarrow> error + (worker \<times> ascii list)" where
  "doWork charIsSigned w slots =
     (if 0 < buildTimeLeft w then
        (let w1 = w\<lparr>buildTimeLeft := buildTimeLeft w - 1\<rparr>
         in if buildTimeLeft w1 = 0
            then doWork_hands charIsSigned
                   (w1\<lparr>left := COMPONENT_NULL, right := COMPONENT_P\<rparr>) slots
            else Inr (w1, slots))
      else doWork_hands charIsSigned w slots)"

subsection \<open>A small configuration\<close>

text \<open>
  The objects that \<^verbatim>\<open>main\<close> creates: the constructors \<^verbatim>\<open>ItemType(ascii)\<close> and
  \<^verbatim>\<open>ItemType()\<close>, the components A and B, the finished kind P with recipe A and B, and
  the null item. Both constructors leave \<^verbatim>\<open>generationProbability\<close> uninitialised, and
  \<^verbatim>\<open>ItemType(ascii)\<close> also \<^verbatim>\<open>componentsRequired\<close>; they are \<open>0\<close> and the null pointer here.
\<close>

definition ItemType_named :: "ascii \<Rightarrow> ItemType" where
  "ItemType_named itemType =
     \<lparr>name = itemType, itemId = ucast itemType, weight = 0, generationProbability = Finite 0,
      numberCollected = 0, componentsRequired = None\<rparr>"

definition ItemType_null :: ItemType where
  "ItemType_null =
     \<lparr>name = 0, itemId = NULL_ITEM_ID, weight = 0, generationProbability = Finite 0,
      numberCollected = 0, componentsRequired = None\<rparr>"

definition itemA :: ptr where
  "itemA = 1"

definition itemB :: ptr where
  "itemB = 2"

definition itemP :: ptr where
  "itemP = 3"

definition nullItem :: ptr where
  "nullItem = 4"

definition exampleStore :: store where
  "exampleStore =
     (\<lambda>a. ItemType_null)
       (itemA := ItemType_named 65,
        itemB := ItemType_named 66,
        itemP := (ItemType_named 80)\<lparr>componentsRequired := Some [itemA, itemB]\<rparr>)"

text \<open>A fresh belt of five slots, as \<^verbatim>\<open>new Belt(5)\<close> makes it, in a zeroed block.\<close>

definition emptyBelt :: Sim where
  "emptyBelt = Belt_new 5 (\<lambda>i. None) exampleStore"

text \<open>
  The same belt set up through the calls that \<^verbatim>\<open>main\<close> makes, with two item
  factories and two workers of equal weight, so that every probability is \<open>1/2\<close>.
\<close>

definition twoWorkers :: Sim where
  "twoWorkers =
     addWorker Worker_new 2 50 (addWorker Worker_new 1 50
       (addFinishedItem itemP
          (addItemFactory nullItem 50 (addItemFactory itemA 50 emptyBelt))))"

text \<open>
  The same fresh belt after the registration of component A with weight 1, then of
  component B with weight 10, then of the null item with weight 1.
\<close>

definition oneKind :: Sim where
  "oneKind = addItemFactory itemA 1 emptyBelt"

definition twoKinds :: Sim where
  "twoKinds = addItemFactory itemB 10 oneKind"

definition threeKinds :: Sim where
  "threeKinds = addItemFactory nullItem 1 twoKinds"


section \<open>Properties of the worker of the C++ core\<close>

lemmas example_defs =
  exampleStore_def itemA_def itemB_def itemP_def nullItem_def ItemType_named_def
  ItemType_null_def Worker_new_def

lemma doWork_full_hands:
  assumes "leftHand w = Some l" and "rightHand w = Some r"
  shows "\<exists>out w'. Worker_doWork h w it (Some f) = Inr (out, w') \<and>
           leftHand w' = Some l \<and> rightHand w' = Some r"
  using assms
  by (auto simp: Worker_doWork_def Let_def pickLeft_def pickRight_def split: if_splits)

lemma doWork_reenters:
  assumes "leftHand w = Some l" and "rightHand w = Some r" and "amAssembling w = 0"
    and "assemble h f [l, r] \<noteq> None"
  shows "Worker_doWork h w it (Some f) =
           Inr (it, w\<lparr>doneWork := True, amAssembling := ASSEMBLE_TIME\<rparr>)"
  using assms
  by (auto simp: Worker_doWork_def Let_def pickLeft_def pickRight_def split: if_splits)

lemma activations_full_hands:
  assumes "leftHand w = Some l" and "rightHand w = Some r"
  shows "\<exists>w'. activations (Some f) w offers = Inr w' \<and>
           leftHand w' = Some l \<and> rightHand w' = Some r"
  using assms
proof (induction offers arbitrary: w)
  case Nil
  then show ?case by simp
next
  case (Cons offer offers)
  obtain h it where offer: "offer = (h, it)"
    by (cases offer)
  from doWork_full_hands [OF Cons.prems, of h it f]
  obtain out w1 where step: "Worker_doWork h w it (Some f) = Inr (out, w1)"
    and hands: "leftHand w1 = Some l" "rightHand w1 = Some r"
    by blast
  from Cons.IH [OF hands] step offer show ?case
    by simp
qed

text \<open>
  Claim C10. In the C++ core, a worker with both hands full keeps both hands full through
  any number of further activations, whatever is offered: no path of \<^verbatim>\<open>Worker::doWork\<close>
  empties a hand. Whenever the countdown is back at zero after such a run and the hands
  satisfy the recipe of the finished kind, the next activation picks nothing up (the slot
  content is returned as offered) and sets the countdown to \<open>ASSEMBLE_TIME\<close> again.
  (With the null pointer for the finished kind the first such activation dereferences it;
  the statement is about a belt that has a finished kind.)
\<close>

theorem hands_stay_full:
  assumes "leftHand w = Some l" and "rightHand w = Some r"
  shows "\<exists>w'. activations (Some f) w offers = Inr w' \<and>
           leftHand w' = Some l \<and> rightHand w' = Some r \<and>
           (amAssembling w' = 0 \<and> assemble h f [l, r] \<noteq> None \<longrightarrow>
              Worker_doWork h w' it (Some f) =
                Inr (it, w'\<lparr>doneWork := True, amAssembling := ASSEMBLE_TIME\<rparr>))"
proof -
  from activations_full_hands [OF assms, of f offers]
  obtain w' where run: "activations (Some f) w offers = Inr w'"
    and hands: "leftHand w' = Some l" "rightHand w' = Some r"
    by blast
  have "Worker_doWork h w' it (Some f) =
          Inr (it, w'\<lparr>doneWork := True, amAssembling := ASSEMBLE_TIME\<rparr>)"
    if "amAssembling w' = 0" and "assemble h f [l, r] \<noteq> None"
    using doWork_reenters [OF hands that] .
  with run hands show ?thesis
    by simp
qed

theorem hands_stay_full_witness:
  "\<exists>w'. activations (Some itemP)
           (Worker_new\<lparr>amAssembling := 1, leftHand := Some itemA, rightHand := Some itemB\<rparr>)
           [(exampleStore, None)] = Inr w' \<and>
         leftHand w' = Some itemA \<and> rightHand w' = Some itemB \<and>
         amAssembling w' = 0 \<and> assemble exampleStore itemP [itemA, itemB] \<noteq> None \<and>
         Worker_doWork exampleStore w' (Some itemA) (Some itemP) =
           Inr (Some itemA, w'\<lparr>doneWork := True, amAssembling := ASSEMBLE_TIME\<rparr>)"
proof -
  let ?w = "Worker_new\<lparr>amAssembling := 1, leftHand := Some itemA, rightHand := Some itemB\<rparr>"
  have l: "leftHand ?w = Some itemA" and r: "rightHand ?w = Some itemB"
    by (simp_all add: Worker_new_def)
  from hands_stay_full [OF l r, of itemP "[(exampleStore, None)]" exampleStore "Some itemA"]
  obtain w' where run: "activations (Some itemP) ?w [(exampleStore, None)] = Inr w'"
    and hands: "leftHand w' = Some itemA" "rightHand w' = Some itemB"
    and again: "amAssembling w' = 0 \<and> assemble exampleStore itemP [itemA, itemB] \<noteq> None \<longrightarrow>
      Worker_doWork exampleStore w' (Some itemA) (Some itemP) =
        Inr (Some itemA, w'\<lparr>doneWork := True, amAssembling := ASSEMBLE_TIME\<rparr>)"
    by blast
  have "activations (Some itemP) ?w [(exampleStore, None)] =
          Inr (?w\<lparr>doneWork := True, amAssembling := 0\<rparr>)"
    by (simp add: Worker_doWork_def Worker_new_def Let_def)
  with run have zero: "amAssembling w' = 0"
    by auto
  have recipe: "assemble exampleStore itemP [itemA, itemB] \<noteq> None"
    by (simp add: assemble_def example_defs)
  from run hands zero recipe again show ?thesis
    by blast
qed

text \<open>
  Claim C5 says that an idle worker picks up the occupant of its slot only when it is a
  raw component, never a finished item. The worker of \<^verbatim>\<open>simple.c\<close> tests for that; the
  worker of the C++ core only tests that the slot is not empty. Offered the finished kind
  P (whose recipe is A and B), a C++ worker with two empty hands and no countdown puts P
  in its left hand and returns an empty slot.
\<close>

theorem doWork_picks_up_finished_item:
  "componentsRequired (exampleStore itemP) = Some [itemA, itemB] \<and>
   Worker_doWork exampleStore Worker_new (Some itemP) (Some itemP) =
     Inr (None, Worker_new\<lparr>doneWork := True, leftHand := Some itemP\<rparr>)"
  by (simp add: Worker_doWork_def Let_def pickLeft_def pickRight_def slotIsEmpty_def
      NULL_ITEM_ID_def example_defs)

text \<open>The same for any worker with empty hands and any occupant of the slot.\<close>

lemma doWork_picks_up_any_item:
  assumes "amAssembling w = 0" and "leftHand w = None" and "rightHand w = None"
    and "\<not> slotIsEmpty h (Some a)"
  shows "Worker_doWork h w (Some a) fin = Inr (None, w\<lparr>doneWork := True, leftHand := Some a\<rparr>)"
  using assms
  by (simp add: Worker_doWork_def Let_def pickLeft_def pickRight_def)

text \<open>
  Claim C6 says that a worker whose countdown is positive returns the content of its slot
  unchanged. In the C++ core that holds while the countdown stays positive, but the
  activation that takes the countdown from 1 to 0 returns the finished kind as the new
  content of the slot, whatever was offered: here the component A on the belt is
  replaced by P.
\<close>

theorem doWork_overwrites_offered_component:
  "Worker_doWork exampleStore
     (Worker_new\<lparr>amAssembling := 1, leftHand := Some itemA, rightHand := Some itemB\<rparr>)
     (Some itemA) (Some itemP) =
   Inr (Some itemP,
        Worker_new\<lparr>doneWork := True, amAssembling := 0,
                     leftHand := Some itemA, rightHand := Some itemB\<rparr>)"
  by (simp add: Worker_doWork_def Let_def Worker_new_def)

lemma doWork_finishes_assembling:
  "amAssembling w = 1 \<Longrightarrow>
     Worker_doWork h w it fin = Inr (fin, w\<lparr>doneWork := True, amAssembling := 0\<rparr>)"
  by (simp add: Worker_doWork_def Let_def)

lemma doWork_still_assembling:
  assumes "1 < amAssembling w"
  shows "Worker_doWork h w it fin =
           Inr (it, w\<lparr>doneWork := True, amAssembling := amAssembling w - 1\<rparr>)"
proof -
  from assms have "0 < amAssembling w" and "amAssembling w - 1 \<noteq> 0"
    by (auto simp: word_less_nat_alt unat_gt_0)
  then show ?thesis
    by (simp add: Worker_doWork_def Let_def)
qed

text \<open>
  Claim C4 says that a worker with a completed finished item to place puts it into an
  empty slot and clears both hands, and that it changes nothing when the slot is
  occupied. The worker of \<^verbatim>\<open>simple.c\<close> does that (\<open>simple_places_finished_item\<close> below).
  The worker of the C++ core has the finished item to place in the activation that ends
  its countdown, and returns it as the content of the slot without a look at the slot:
  an occupied slot loses its occupant (here B), and with an empty slot the item is placed
  but the hands still hold A and B.
\<close>

theorem doWork_places_without_backpressure:
  "Worker_doWork exampleStore
     (Worker_new\<lparr>amAssembling := 1, leftHand := Some itemA, rightHand := Some itemB\<rparr>)
     (Some itemB) (Some itemP) =
   Inr (Some itemP,
        Worker_new\<lparr>doneWork := True, amAssembling := 0,
                     leftHand := Some itemA, rightHand := Some itemB\<rparr>) \<and>
   Worker_doWork exampleStore
     (Worker_new\<lparr>amAssembling := 1, leftHand := Some itemA, rightHand := Some itemB\<rparr>)
     None (Some itemP) =
   Inr (Some itemP,
        Worker_new\<lparr>doneWork := True, amAssembling := 0,
                     leftHand := Some itemA, rightHand := Some itemB\<rparr>)"
  by (simp add: Worker_doWork_def Let_def Worker_new_def)

section \<open>Properties of the worker of \<^verbatim>\<open>simple.c\<close>\<close>


text \<open>
  Reading a cell of the belt as a signed or as an unsigned byte makes no difference to
  the comparisons with the constants, and a cell that differs from a hand as a byte
  differs from it as an integer.
\<close>

lemma charValue_hand:
  assumes "charValue charIsSigned c = uint (r :: ascii)"
  shows "c = r"
proof (cases charIsSigned)
  case True
  with assms have "sint c = uint r"
    by (simp add: charValue_def)
  then have "(word_of_int (sint c) :: ascii) = word_of_int (uint r)"
    by simp
  then show ?thesis
    by simp
next
  case False
  with assms have "uint c = uint r"
    by (simp add: charValue_def)
  then show ?thesis
    by (rule word_uint_eqI)
qed

lemma charValue_NULL [simp]:
  "(charValue charIsSigned c = uint COMPONENT_NULL) = (c = COMPONENT_NULL)"
proof
  assume "charValue charIsSigned c = uint COMPONENT_NULL"
  then show "c = COMPONENT_NULL"
    by (rule charValue_hand)
next
  assume "c = COMPONENT_NULL"
  then show "charValue charIsSigned c = uint COMPONENT_NULL"
    by (simp add: charValue_def COMPONENT_NULL_def)
qed

lemma charValue_P [simp]:
  "(charValue charIsSigned c = uint COMPONENT_P) = (c = COMPONENT_P)"
proof
  assume "charValue charIsSigned c = uint COMPONENT_P"
  then show "c = COMPONENT_P"
    by (rule charValue_hand)
next
  assume "c = COMPONENT_P"
  then show "charValue charIsSigned c = uint COMPONENT_P"
    by (simp add: charValue_def COMPONENT_P_def)
qed


text \<open>
  A worker of \<^verbatim>\<open>simple.c\<close> that holds a finished item waiting to be placed (P in its right
  hand, countdown at zero) and stands at a slot of the belt: if the slot is empty, P is
  placed there and both hands are emptied; if the slot is occupied, neither the belt nor
  the worker changes.
\<close>

lemma simple_places_finished_item:
  assumes "buildTimeLeft w = 0" and "right w = COMPONENT_P" and "unat (pos w) < length slots"
  shows "doWork charIsSigned w slots =
           (if slots ! unat (pos w) = COMPONENT_NULL
            then Inr (w\<lparr>left := COMPONENT_NULL, right := COMPONENT_NULL\<rparr>,
                      slots[unat (pos w) := COMPONENT_P])
            else Inr (w, slots))"
  using assms by (simp add: doWork_def doWork_hands_def Let_def)

text \<open>
  In the situations of the two claims on picking up and on the countdown, the worker of
  \<^verbatim>\<open>simple.c\<close> behaves otherwise than the C++ core: an idle worker changes the belt only by
  taking a raw component that its right hand does not hold, and a worker with a countdown
  leaves an occupied slot as it is.
\<close>

lemma simple_picks_only_raw:
  assumes "buildTimeLeft w = 0" and "right w \<noteq> COMPONENT_P"
    and "doWork charIsSigned w slots = Inr (w', slots')" and "slots' \<noteq> slots"
  shows "slots ! unat (pos w) \<noteq> COMPONENT_NULL \<and> slots ! unat (pos w) \<noteq> COMPONENT_P \<and>
         charValue charIsSigned (slots ! unat (pos w)) \<noteq> uint (right w) \<and>
         slots' = slots[unat (pos w) := COMPONENT_NULL]"
  using assms
  by (auto simp: doWork_def doWork_hands_def Let_def split: if_splits)

lemma simple_assembling_keeps_slot:
  assumes "0 < buildTimeLeft w" and "unat (pos w) < length slots"
    and "slots ! unat (pos w) \<noteq> COMPONENT_NULL"
  shows "doWork charIsSigned w slots =
           Inr (if buildTimeLeft w = 1
                then w\<lparr>buildTimeLeft := 0, left := COMPONENT_NULL, right := COMPONENT_P\<rparr>
                else w\<lparr>buildTimeLeft := buildTimeLeft w - 1\<rparr>, slots)"
  using assms
  by (auto simp: doWork_def doWork_hands_def Let_def)

section \<open>The start of an assembly, in both programs\<close>




section \<open>Properties of the belt of the C++ core\<close>

lemmas setup_defs =
  emptyBelt_def twoWorkers_def addWorker_def addFinishedItem_def addItemFactory_def Belt_new_def

lemmas step_defs =
  getNextItem_def getNextWorker_def advanceBelt_def setSlot_def getSlot_def getFinishedItems_def

text \<open>
  What \<^verbatim>\<open>advanceBelt(1)\<close> does to any belt of five slots: the contents of slots 0 to 3 move
  one slot on, the occupant of slot 4 is counted once and is also copied into cell 5,
  which lies beyond the last slot, and slot 0 is not written at all.
\<close>

lemma advanceBelt_move_five:
  "advanceBelt_move 1 5 b = b(5 := b 4, 4 := b 3, 3 := b 2, 2 := b 1, 1 := b 0)"
  by (simp add: loop_simps)

lemma advanceBelt_count_five:
  "advanceBelt_count b 3 4 h =
     (case b 4 of None \<Rightarrow> h | Some it \<Rightarrow> h(it := incrementNumberCollected (h it)))"
  by (simp add: loop_simps)

lemma advanceBelt_five_slots:
  assumes "numberOfSlots s = 5"
  shows "advanceBelt 1 s =
           s\<lparr>beltSlots := (beltSlots s)(5 := beltSlots s 4, 4 := beltSlots s 3,
                             3 := beltSlots s 2, 2 := beltSlots s 1, 1 := beltSlots s 0),
             currentWorkerMaxProbability := Finite 1,
             workers := map (\<lambda>wk. wk\<lparr>doneWork := False\<rparr>) (workers s),
             objects := (case beltSlots s 4 of
                           None \<Rightarrow> objects s
                         | Some it \<Rightarrow> (objects s)(it := incrementNumberCollected (objects s it)))\<rparr>"
  using assms by (simp add: advanceBelt_def advanceBelt_move_five advanceBelt_count_five)

text \<open>
  Claim C2 says that a shift by one slot of a belt of length 5 leaves the entry slot 0
  empty. The loop of \<^verbatim>\<open>advanceBelt\<close> that moves the slots runs over the indices 5 down to
  1, so that its branch for the zero fill is never taken for \<open>n = 1\<close> and slot 0 keeps its
  occupant: a belt with component A in slot 0 has A in slot 0 and in slot 1 afterwards.
  The other two parts of the claim hold, by \<open>advanceBelt_five_slots\<close>.
\<close>

theorem advanceBelt_keeps_entry_slot:
  "getSlot 0 (setSlot (Some itemA) 0 emptyBelt) = Some itemA \<and>
   getSlot 0 (advanceBelt 1 (setSlot (Some itemA) 0 emptyBelt)) = Some itemA \<and>
   getSlot 1 (advanceBelt 1 (setSlot (Some itemA) 0 emptyBelt)) = Some itemA"
  by (simp add: advanceBelt_def setSlot_def getSlot_def emptyBelt_def Belt_new_def loop_simps)

text \<open>
  Claim C9 says that a shift of a belt of \<open>N\<close> slots reads and writes only the indices
  \<open>0 .. N - 1\<close>. The first iteration of the same loop executes
  \<^verbatim>\<open>beltSlots[i] = beltSlots[i-n]\<close> with \<open>i = numberOfSlots\<close>: on a belt of five slots with
  component A in slot 4, the cell of index 5 is empty before the shift and holds A after.
\<close>

theorem advanceBelt_writes_beyond_last_slot:
  "numberOfSlots (setSlot (Some itemA) 4 emptyBelt) = 5 \<and>
   beltSlots (setSlot (Some itemA) 4 emptyBelt) 5 = None \<and>
   beltSlots (advanceBelt 1 (setSlot (Some itemA) 4 emptyBelt)) 5 = Some itemA"
  by (simp add: advanceBelt_def setSlot_def emptyBelt_def Belt_new_def loop_simps)

text \<open>The same for a belt of any length: the cell of index \<open>numberOfSlots\<close> is written.\<close>

lemma sint_minus_one:
  assumes "0 <s (i :: cint)"
  shows "sint (i - 1) = sint i - 1"
proof -
  from assms have "0 < sint i"
    by (simp add: word_sless_alt)
  moreover have "sint i < 2 ^ 31"
    using sint_lt [of i] by simp
  ultimately have "signed_take_bit 31 (sint i - 1) = sint i - 1"
    by (intro signed_take_bit_int_eq_self) auto
  then show ?thesis
    by (simp add: sint_word_ariths)
qed

lemma advanceBelt_move_above:
  "sint i < j \<Longrightarrow> advanceBelt_move n i b j = b j"
proof (induction n i b rule: advanceBelt_move.induct)
  case (1 n i slots)
  show ?case
  proof (cases "0 <s i")
    case True
    with "1.prems" have "sint (i - 1) < j"
      by (simp add: sint_minus_one)
    from "1.IH" [OF True this] True "1.prems" show ?thesis
      by (subst advanceBelt_move.simps) auto
  next
    case False
    then show ?thesis
      by (subst advanceBelt_move.simps) simp
  qed
qed

lemma advanceBelt_writes_cell_numberOfSlots:
  assumes "0 <s numberOfSlots s"
  shows "beltSlots (advanceBelt 1 s) (sint (numberOfSlots s)) =
           beltSlots s (sint (numberOfSlots s) - 1)"
proof -
  let ?N = "numberOfSlots s"
  have dec: "sint (?N - 1) = sint ?N - 1"
    using assms by (rule sint_minus_one)
  from assms have le: "1 \<le>s ?N"
    by (simp add: word_sless_alt word_sle_eq)
  have "advanceBelt_move 1 ?N (beltSlots s) (sint ?N) =
          advanceBelt_move 1 (?N - 1)
            ((beltSlots s)(sint ?N := beltSlots s (sint (?N - 1)))) (sint ?N)"
    using assms le by (subst advanceBelt_move.simps) simp
  also have "\<dots> = ((beltSlots s)(sint ?N := beltSlots s (sint (?N - 1)))) (sint ?N)"
    by (rule advanceBelt_move_above) (simp add: dec)
  finally show ?thesis
    by (simp add: advanceBelt_def dec)
qed

section \<open>Properties of the step loop of the C++ core\<close>

lemma runSim_add:
  "runSim rnd (k + n) s =
     (case runSim rnd k s of
        (None, sk) \<Rightarrow> runSim rnd n sk
      | (Some e, sk) \<Rightarrow> (Some e, sk))"
proof (induction k arbitrary: s)
  case 0
  then show ?case by simp
next
  case (Suc k)
  show ?case
    by (simp add: Suc.IH Let_def split: prod.splits option.splits sum.splits)
qed

text \<open>
  Claim C7. When, after \<open>k\<close> complete steps, the draw of \<^verbatim>\<open>getNextItem\<close> selects no item,
  \<^verbatim>\<open>runSim\<close> returns at once, however many steps were still to run: the final state is
  the state after those \<open>k\<close> steps with one more draw counted. The belt is not advanced, no
  worker is activated, and no second draw is made.
\<close>

theorem runSim_stops_at_failed_draw:
  assumes "runSim rnd k s = (None, sk)" and "fst (getNextItem rnd sk) = None"
  shows "runSim rnd (k + Suc m) s = (Some NoItemSelected, sk\<lparr>draws := draws sk + 1\<rparr>)"
proof -
  from assms(2) have "getNextItem rnd sk = (None, sk\<lparr>draws := draws sk + 1\<rparr>)"
    by (simp add: getNextItem_def)
  then have "runSim rnd (Suc m) sk = (Some NoItemSelected, sk\<lparr>draws := draws sk + 1\<rparr>)"
    by simp
  with assms(1) show ?thesis
    by (simp only: runSim_add split: prod.splits option.splits) simp
qed

text \<open>A belt without item factories: the first draw of a run of 100 steps fails.\<close>

theorem runSim_stops_at_failed_draw_witness:
  "runSim (\<lambda>k. 1 / 4) 0 emptyBelt = (None, emptyBelt) \<and>
   fst (getNextItem (\<lambda>k. 1 / 4) emptyBelt) = None \<and>
   runSim (\<lambda>k. 1 / 4) 100 emptyBelt = (Some NoItemSelected, emptyBelt\<lparr>draws := 1\<rparr>)"
proof -
  have start: "runSim (\<lambda>k. 1 / 4) 0 emptyBelt = (None, emptyBelt)"
    by simp
  have fails: "fst (getNextItem (\<lambda>k. 1 / 4) emptyBelt) = None"
    by (simp add: getNextItem_def emptyBelt_def Belt_new_def)
  have "draws emptyBelt = 0"
    by (simp add: emptyBelt_def Belt_new_def)
  with runSim_stops_at_failed_draw [OF start fails, of 99] start fails show ?thesis
    by simp
qed

text \<open>
  Claim C1 says that in every step each registered worker is activated exactly once. The
  body of the loop of \<^verbatim>\<open>runSim\<close> calls \<^verbatim>\<open>getNextWorker\<close> and \<^verbatim>\<open>doWork\<close> once, not once per
  worker. \<^verbatim>\<open>doWork\<close> sets \<^verbatim>\<open>doneWork\<close> on entry and \<^verbatim>\<open>advanceBelt\<close> clears it at the start of
  the step, so the flags after a step tell who was activated: with two workers on the
  belt, the step activates the first of the list and leaves the second out.
\<close>

theorem runSim_activates_one_worker:
  "length (workers twoWorkers) = 2 \<and>
   fst (runSim (\<lambda>k. 1 / 4) 1 twoWorkers) = None \<and>
   map doneWork (workers (snd (runSim (\<lambda>k. 1 / 4) 1 twoWorkers))) = [True, False]"
  by (simp add: setup_defs example_defs step_defs Let_def Worker_doWork_def
      slotIsEmpty_def NULL_ITEM_ID_def loop_simps castToFloat_def float_simps fsub_def
      split: prod.splits)

text \<open>
  The same for every belt and every random source: a step that runs to its end has
  activated exactly one worker.
\<close>

lemma getNextWorker_loop_range:
  "getNextWorker_loop p c i ws = Some k \<Longrightarrow> i \<le> k \<and> k < i + length ws"
proof (induction ws arbitrary: c i)
  case Nil
  then show ?case by simp
next
  case (Cons wk ws)
  then show ?case
    by (fastforce simp: Let_def split: if_splits)
qed

lemma doWork_marks_worker:
  "Worker_doWork h w it fin = Inr (out, w') \<Longrightarrow> doneWork w'"
  by (auto simp: Worker_doWork_def Let_def pickLeft_def pickRight_def
      split: if_splits option.splits prod.splits)

lemma filter_single:
  assumes "k < length xs" and "\<forall>x \<in> set xs. \<not> P x" and "P y"
  shows "filter P (xs[k := y]) = [y]"
proof -
  have "xs[k := y] = take k xs @ y # drop (Suc k) xs"
    using assms(1) by (rule upd_conv_take_nth_drop)
  moreover have "filter P (take k xs) = []"
    using assms(2) by (auto simp: filter_empty_conv dest: in_set_takeD)
  moreover have "filter P (drop (Suc k) xs) = []"
    using assms(2) by (auto simp: filter_empty_conv dest: in_set_dropD)
  ultimately show ?thesis
    using assms(3) by simp
qed

lemma runSim_step:
  assumes "getNextItem rnd s = (Some nxt, s1)"
    and "getNextWorker rnd (setSlot (Some nxt) 0 (advanceBelt 1 s1)) = (Some k, s3)"
    and "Worker_doWork (objects s3) (workers s3 ! k)
           (getSlot (position (workers s3 ! k)) s3) (getFinishedItems s3) = Inr (newIt, wk')"
  shows "runSim rnd (Suc n) s =
           runSim rnd n (setSlot newIt (position (workers s3 ! k))
                           (s3\<lparr>workers := (workers s3)[k := wk']\<rparr>))"
  using assms by (simp add: Let_def)

lemma one_worker_per_step:
  assumes "runSim rnd (Suc 0) s = (None, s')"
  shows "length (filter doneWork (workers s')) = 1"
proof -
  obtain r1 s1 where g1: "getNextItem rnd s = (r1, s1)"
    by (cases "getNextItem rnd s")
  with assms obtain nxt where r1: "r1 = Some nxt"
    by (cases r1) auto
  let ?s2 = "setSlot (Some nxt) 0 (advanceBelt 1 s1)"
  obtain r3 s3 where g3: "getNextWorker rnd ?s2 = (r3, s3)"
    by (cases "getNextWorker rnd ?s2")
  with assms g1 r1 obtain k where r3: "r3 = Some k"
    by (cases r3) (auto simp: Let_def)
  have ws2: "workers ?s2 = map (\<lambda>wk. wk\<lparr>doneWork := False\<rparr>) (workers s1)"
    by (simp add: setSlot_def advanceBelt_def Let_def)
  from g3 r3
  have loop: "getNextWorker_loop (fmul (Finite (rnd (draws ?s2))) (currentWorkerMaxProbability ?s2))
                (Finite 0) 0 (workers ?s2) = Some k"
    and ws3: "workers s3 = workers ?s2"
    by (auto simp: getNextWorker_def Let_def split: option.splits)
  from getNextWorker_loop_range [OF loop] have k: "k < length (workers s3)"
    by (simp add: ws3)
  let ?dw = "Worker_doWork (objects s3) (workers s3 ! k)
       (getSlot (position (workers s3 ! k)) s3) (getFinishedItems s3)"
  obtain newIt wk' where dw: "?dw = Inr (newIt, wk')"
    using assms g1 r1 g3 r3 by (cases ?dw) (auto simp: Let_def)
  from runSim_step [OF g1 [unfolded r1] g3 [unfolded r3] dw, of 0] assms
  have "s' = setSlot newIt (position (workers s3 ! k)) (s3\<lparr>workers := (workers s3)[k := wk']\<rparr>)"
    by simp
  then have "workers s' = (workers s3)[k := wk']"
    by (simp add: setSlot_def)
  moreover have "\<forall>x \<in> set (workers s3). \<not> doneWork x"
    by (auto simp: ws3 ws2)
  ultimately have "filter doneWork (workers s') = [wk']"
    using filter_single [OF k, of doneWork wk'] doWork_marks_worker [OF dw] by simp
  then show ?thesis
    by simp
qed

section \<open>The generation probabilities of the C++ core\<close>

subsection \<open>The error of a rounding\<close>

lemma roundNearestEven_error: "\<bar>of_int (roundNearestEven y) - y\<bar> \<le> 1 / 2"
proof -
  have "of_int \<lfloor>y\<rfloor> \<le> y" and "y < of_int \<lfloor>y\<rfloor> + 1"
    by linarith+
  then show ?thesis
    by (auto simp: roundNearestEven_def Let_def)
qed

lemma scaleToSignificand_product:
  "scaleToSignificand n y c = (y', c') \<Longrightarrow> y' * c' = y * c"
proof (induction n y c rule: scaleToSignificand.induct)
  case (1 n y c)
  then show ?case
    by (subst (asm) (3) scaleToSignificand.simps) (auto split: if_splits)
qed

lemma scaleToSignificand_factor:
  "scaleToSignificand n y c = (y', c') \<Longrightarrow> 0 < c \<Longrightarrow> 0 < c'"
proof (induction n y c rule: scaleToSignificand.induct)
  case (1 n y c)
  then show ?case
    by (subst (asm) (3) scaleToSignificand.simps) (auto split: if_splits)
qed

lemma scaleToSignificand_lower:
  "scaleToSignificand n y c = (y', c') \<Longrightarrow> 8388608 \<le> y * 2 ^ n \<Longrightarrow> 8388608 \<le> y'"
proof (induction n y c rule: scaleToSignificand.induct)
  case (1 n y c)
  show ?case
  proof (cases "n = 0 \<or> (8388608 \<le> y \<and> y < 16777216)")
    case True
    with "1.prems" show ?thesis
      by (subst (asm) scaleToSignificand.simps) auto
  next
    case False
    then obtain m where n: "n = Suc m"
      by (cases n) auto
    show ?thesis
    proof (cases "16777216 \<le> y")
      case True
      with False "1.prems"(1) have eq: "scaleToSignificand (n - 1) (y / 2) (2 * c) = (y', c')"
        by (subst (asm) scaleToSignificand.simps) auto
      have "(1::real) \<le> 2 ^ (n - 1)" by simp
      with True have "8388608 * 1 \<le> (y / 2) * 2 ^ (n - 1)"
        by (intro mult_mono) auto
      with "1.IH"(1) [OF False True eq] show ?thesis by simp
    next
      case small: False
      with False "1.prems"(1) have eq: "scaleToSignificand (n - 1) (2 * y) (c / 2) = (y', c')"
        by (subst (asm) scaleToSignificand.simps) auto
      from "1.prems"(2) n have "8388608 \<le> 2 * y * 2 ^ (n - 1)"
        by simp
      with "1.IH"(2) [OF False small eq] show ?thesis by simp
    qed
  qed
qed

lemma toFloat_error:
  assumes "1 / 2 ^ 200 \<le> x"
  shows "\<bar>toFloat x - x\<bar> \<le> x / 16777216"
proof -
  have pow: "(0::real) < 1 / 2 ^ 200" by simp
  with assms have pos: "0 < x" by linarith
  obtain y c where sc: "scaleToSignificand 256 \<bar>x\<bar> 1 = (y, c)"
    by (cases "scaleToSignificand 256 \<bar>x\<bar> 1")
  from scaleToSignificand_product [OF sc] pos have prod: "y * c = x" by simp
  from scaleToSignificand_factor [OF sc] have c: "0 < c" by simp
  have "(8388608::real) \<le> (1 / 2 ^ 200) * 2 ^ 256"
    by simp
  also have "\<dots> \<le> x * 2 ^ 256"
    using assms by (intro mult_right_mono) auto
  finally have "8388608 \<le> \<bar>x\<bar> * 2 ^ 256" using pos by simp
  from scaleToSignificand_lower [OF sc this] have y: "8388608 \<le> y" .
  have tf: "toFloat x = of_int (roundNearestEven y) * c"
    using pos sc by (simp add: toFloat_def)
  have "toFloat x - x = of_int (roundNearestEven y) * c - y * c"
    using tf prod by simp
  then have "toFloat x - x = (of_int (roundNearestEven y) - y) * c"
    by (simp add: left_diff_distrib)
  then have "\<bar>toFloat x - x\<bar> = \<bar>of_int (roundNearestEven y) - y\<bar> * c"
    using c by (simp add: abs_mult)
  also have "\<dots> \<le> (1 / 2) * c"
    using c roundNearestEven_error [of y] by (intro mult_right_mono) auto
  also have "\<dots> \<le> x / 16777216"
  proof -
    from y c have "8388608 * c \<le> y * c"
      by (intro mult_right_mono) auto
    with prod show ?thesis by simp
  qed
  finally show ?thesis .
qed

lemma toFloat_zero: "toFloat 0 = 0"
  by (simp add: toFloat_def)

lemma toFloat_bounds:
  assumes "1 / 2 ^ 200 \<le> x"
  shows "x * (16777215 / 16777216) \<le> toFloat x" and "toFloat x \<le> x * (16777217 / 16777216)"
proof -
  from toFloat_error [OF assms] have "\<bar>toFloat x - x\<bar> \<le> x / 16777216" .
  then have "x - x / 16777216 \<le> toFloat x" and "toFloat x \<le> x + x / 16777216"
    by linarith+
  then show "x * (16777215 / 16777216) \<le> toFloat x" and "toFloat x \<le> x * (16777217 / 16777216)"
    by simp_all
qed

lemma quotient_error:
  fixes w T :: nat
  assumes "0 < T" and "T < 2 ^ 64"
  shows "\<bar>toFloat (toFloat (real w) / toFloat (real T)) - real w / real T\<bar>
           \<le> real w / real T / 4194304"
proof (cases "w = 0")
  case True
  then show ?thesis by (simp add: toFloat_zero)
next
  case False
  define r where "r = real w / real T"
  define a where "a = toFloat (real w)"
  define b where "b = toFloat (real T)"
  have tiny: "(1::real) / 2 ^ 200 \<le> 1 / 2 ^ 66" and tiny1: "(1::real) / 2 ^ 200 \<le> 1"
    by simp_all
  have w1: "1 \<le> real w"
    using False by simp
  have T1: "1 \<le> real T"
    using assms(1) by simp
  have T64: "real T \<le> 2 ^ 64"
  proof -
    from assms(2) have "real T < real (2 ^ 64)"
      by (simp only: of_nat_less_iff)
    then show ?thesis by simp
  qed
  have r0: "0 \<le> r"
    using w1 T1 by (simp add: r_def)
  from tiny1 w1 have wr: "1 / 2 ^ 200 \<le> real w"
    by linarith
  from tiny1 T1 have Tr: "1 / 2 ^ 200 \<le> real T"
    by linarith
  note aw = toFloat_bounds [OF wr, folded a_def]
  note bT = toFloat_bounds [OF Tr, folded b_def]
  have wl: "0 < real w * (16777215 / 16777216)" and Tl: "0 < real T * (16777215 / 16777216)"
    using w1 T1 by simp_all
  from wl aw(1) have a0: "0 < a"
    by linarith
  from Tl bT(1) have b0: "0 < b"
    by linarith
  have "a / b \<le> (real w * (16777217 / 16777216)) / (real T * (16777215 / 16777216))"
    using a0 aw(2) Tl bT(1) by (intro frac_le) simp_all
  also have "\<dots> = r * (16777217 / 16777215)"
    by (simp add: r_def)
  finally have x_le: "a / b \<le> r * (16777217 / 16777215)" .
  have "r * (16777215 / 16777217) =
      (real w * (16777215 / 16777216)) / (real T * (16777217 / 16777216))"
    by (simp add: r_def)
  also have "\<dots> \<le> a / b"
    using wl aw(1) b0 bT(2) by (intro frac_le) simp_all
  finally have x_ge: "r * (16777215 / 16777217) \<le> a / b" .
  have "1 / 2 ^ 64 \<le> r"
    unfolding r_def using w1 T1 T64 by (intro frac_le) simp_all
  then have "(1 / 2 ^ 64) * (16777215 / 16777217) \<le> r * (16777215 / 16777217)"
    by (intro mult_right_mono) simp_all
  moreover have "(1::real) / 2 ^ 66 \<le> (1 / 2 ^ 64) * (16777215 / 16777217)"
    by simp
  ultimately have "1 / 2 ^ 66 \<le> a / b"
    using x_ge by linarith
  with tiny have xr: "1 / 2 ^ 200 \<le> a / b"
    by linarith
  note q = toFloat_bounds [OF xr]
  have "toFloat (a / b) \<le> (a / b) * (16777217 / 16777216)"
    by (rule q(2))
  also have "\<dots> \<le> (r * (16777217 / 16777215)) * (16777217 / 16777216)"
    using x_le by (intro mult_right_mono) simp_all
  also have "\<dots> = r * ((16777217 / 16777215) * (16777217 / 16777216))"
    by simp
  also have "\<dots> \<le> r * (1 + 1 / 4194304)"
    using r0 by (intro mult_left_mono) simp_all
  finally have up: "toFloat (a / b) \<le> r * (1 + 1 / 4194304)" .
  have "r * (1 - 1 / 4194304) \<le> r * ((16777215 / 16777217) * (16777215 / 16777216))"
    using r0 by (intro mult_left_mono) simp_all
  also have "\<dots> = (r * (16777215 / 16777217)) * (16777215 / 16777216)"
    by simp
  also have "\<dots> \<le> (a / b) * (16777215 / 16777216)"
    using x_ge by (intro mult_right_mono) simp_all
  also have "\<dots> \<le> toFloat (a / b)"
    by (rule q(1))
  finally have low: "r * (1 - 1 / 4194304) \<le> toFloat (a / b)" .
  from up have up': "toFloat (a / b) - r \<le> r / 4194304"
    by (simp add: algebra_simps)
  from low have "- (toFloat (a / b) - r) \<le> r / 4194304"
    by (simp add: algebra_simps)
  with up' have "\<bar>toFloat (a / b) - r\<bar> \<le> r / 4194304"
    by (rule abs_leI)
  then show ?thesis
    by (simp add: a_def b_def r_def)
qed

lemma toFloat_positive:
  assumes "1 \<le> x"
  shows "0 < toFloat x"
proof -
  have "(1::real) / 2 ^ 200 \<le> 1"
    by simp
  with assms have "1 / 2 ^ 200 \<le> x"
    by linarith
  from toFloat_bounds(1) [OF this] have "x * (16777215 / 16777216) \<le> toFloat x" .
  moreover from assms have "0 < x * (16777215 / 16777216)"
    by simp
  ultimately show ?thesis
    by linarith
qed

subsection \<open>What a registration stores\<close>

lemma unat_ucast_weight: "unat (ucast (w :: u32int) :: u64int) = unat w"
proof -
  have "unat w < 2 ^ 32"
    using unsigned_less [of w] by simp
  then have "unat w < 2 ^ 64"
    by simp
  then show ?thesis
    by (simp add: unsigned_ucast_eq take_bit_nat_eq_self)
qed

lemma fold_generationProbability:
  "fold (\<lambda>it h. h(it := (h it)\<lparr>generationProbability := fdiv (castToFloat (weight (h it))) c\<rparr>)) xs h x =
     (if x \<in> set xs
      then (h x)\<lparr>generationProbability := fdiv (castToFloat (weight (h x))) c\<rparr>
      else h x)"
  by (induction xs arbitrary: h) auto

lemma addItemFactory_fields:
  "itemsToMake (addItemFactory newType weighting s) = newType # itemsToMake s"
  "totalItemWeighting (addItemFactory newType weighting s) = totalItemWeighting s + ucast weighting"
  by (simp_all add: addItemFactory_def Let_def)

lemma addItemFactory_weight:
  "weight (objects (addItemFactory newType weighting s) it) =
     (if it = newType then weighting else weight (objects s it))"
  by (simp add: addItemFactory_def Let_def fold_generationProbability)

lemma addItemFactory_generationProbability:
  assumes "it \<in> set (itemsToMake (addItemFactory newType weighting s))"
  shows "generationProbability (objects (addItemFactory newType weighting s) it) =
           fdiv (castToFloat (weight (objects (addItemFactory newType weighting s) it)))
                (castToFloat (totalItemWeighting (addItemFactory newType weighting s)))"
  using assms by (auto simp: addItemFactory_def Let_def fold_generationProbability)

lemma sum_list_error:
  fixes f g :: "'a \<Rightarrow> real"
  assumes "\<forall>x \<in> set xs. \<bar>f x - g x\<bar> \<le> e x"
  shows "\<bar>(\<Sum>x\<leftarrow>xs. f x) - (\<Sum>x\<leftarrow>xs. g x)\<bar> \<le> (\<Sum>x\<leftarrow>xs. e x)"
  using assms
proof (induction xs)
  case Nil
  then show ?case by simp
next
  case (Cons a xs)
  then have "\<bar>f a - g a\<bar> \<le> e a"
    and "\<bar>(\<Sum>x\<leftarrow>xs. f x) - (\<Sum>x\<leftarrow>xs. g x)\<bar> \<le> (\<Sum>x\<leftarrow>xs. e x)"
    by simp_all
  then have "\<bar>(f a + (\<Sum>x\<leftarrow>xs. f x)) - (g a + (\<Sum>x\<leftarrow>xs. g x))\<bar> \<le> e a + (\<Sum>x\<leftarrow>xs. e x)"
    by linarith
  then show ?case
    by simp
qed

lemmas registry_simps =
  threeKinds_def twoKinds_def oneKind_def addItemFactory_fields addItemFactory_weight
  addItemFactory_generationProbability emptyBelt_def Belt_new_def

text \<open>
  Claim C8 says that after every registration each kind's generation probability equals
  its weight divided by the total weight, and that the probabilities sum to 1.0. The
  stored value is the quotient of two \<^verbatim>\<open>float\<close>s, rounded: after the registration of A, B
  and the null item with weights 1, 10 and 1, the probability of A is
  \<open>11184811 / 134217728\<close> and not \<open>1 / 12\<close>, the three stored values do not sum to 1, and the
  sum that \<^verbatim>\<open>getNextItem\<close> accumulates stays below a draw of 1.0, so that no item is
  selected.
\<close>

theorem generation_probabilities_counterexample:
  "itemsToMake threeKinds = [nullItem, itemB, itemA] \<and>
   weight (objects threeKinds itemA) = 1 \<and> weight (objects threeKinds itemB) = 10 \<and>
   weight (objects threeKinds nullItem) = 1 \<and> totalItemWeighting threeKinds = 12 \<and>
   generationProbability (objects threeKinds itemA) = Finite (11184811 / 134217728) \<and>
   generationProbability (objects threeKinds itemB) = Finite (13981013 / 16777216) \<and>
   generationProbability (objects threeKinds nullItem) = Finite (11184811 / 134217728) \<and>
   (11184811 / 134217728 :: real) \<noteq> 1 / 12 \<and>
   (11184811 / 134217728 + 13981013 / 16777216 + 11184811 / 134217728 :: real) \<noteq> 1 \<and>
   fst (getNextItem (\<lambda>k. 1) threeKinds) = None"
  by (simp add: registry_simps example_defs castToFloat_def float_simps getNextItem_def)

text \<open>
  With a total weight of zero the quotient is \<^verbatim>\<open>0.0f / 0.0f\<close>: the registration of a first
  kind with weight 0 stores a value that is not a number. Nothing in the source guards
  against it.
\<close>

lemma zero_total_is_not_a_number:
  "totalItemWeighting (addItemFactory nullItem 0 emptyBelt) = 0 \<and>
   generationProbability (objects (addItemFactory nullItem 0 emptyBelt) nullItem) = NotANumber"
  by (simp add: registry_simps example_defs castToFloat_def float_simps)

text \<open>
  Claim C8, amended. Take a belt whose total item weight is the sum of the weights of its
  registered kinds, and register a kind that is not yet in the list, so that the new
  total is positive and below \<open>2 ^ 64\<close>. Then the total is again the sum of the weights, and
  every registered kind's generation probability is recomputed as the \<^verbatim>\<open>float\<close> quotient
  \<open>q\<close> of its weight and the new total: \<open>q\<close> differs from the exact quotient by at most the
  fraction \<open>1 / 2 ^ 22\<close> of it, and the probabilities of all registered kinds sum to 1 within
  \<open>1 / 2 ^ 22\<close>.
\<close>

theorem generation_probabilities:
  assumes fresh: "newType \<notin> set (itemsToMake s)"
    and total: "unat (totalItemWeighting s) = (\<Sum>it\<leftarrow>itemsToMake s. unat (weight (objects s it)))"
    and nowrap: "unat (totalItemWeighting s) + unat weighting < 2 ^ 64"
    and positive: "0 < unat (totalItemWeighting s) + unat weighting"
  shows "let s' = addItemFactory newType weighting s;
             T = real (unat (totalItemWeighting s'));
             W = (\<lambda>it. real (unat (weight (objects s' it))));
             q = (\<lambda>it. toFloat (toFloat (W it) / toFloat T))
         in T = (\<Sum>it\<leftarrow>itemsToMake s'. W it) \<and>
            (\<forall>it \<in> set (itemsToMake s').
               generationProbability (objects s' it) = Finite (q it) \<and>
               \<bar>q it - W it / T\<bar> \<le> W it / T / 4194304) \<and>
            \<bar>(\<Sum>it\<leftarrow>itemsToMake s'. q it) - 1\<bar> \<le> 1 / 4194304"
proof -
  define s' where "s' = addItemFactory newType weighting s"
  define n where "n = unat (totalItemWeighting s')"
  define T where "T = real n"
  define W where "W = (\<lambda>it. real (unat (weight (objects s' it))))"
  define q where "q = (\<lambda>it. toFloat (toFloat (W it) / toFloat T))"
  have "unat (totalItemWeighting s + ucast weighting) =
          unat (totalItemWeighting s) + unat (ucast weighting :: u64int)"
    using nowrap by (intro unat_add_lem [THEN iffD1]) (simp add: unat_ucast_weight)
  then have n: "n = unat (totalItemWeighting s) + unat weighting"
    by (simp add: n_def s'_def addItemFactory_fields unat_ucast_weight)
  with positive have npos: "0 < n"
    by simp
  have n64: "n < 2 ^ 64"
    using nowrap n by simp
  have "map (\<lambda>it. unat (weight (objects s' it))) (itemsToMake s) =
          map (\<lambda>it. unat (weight (objects s it))) (itemsToMake s)"
    using fresh by (intro map_cong) (auto simp: s'_def addItemFactory_weight)
  then have old: "(\<Sum>it\<leftarrow>itemsToMake s. unat (weight (objects s' it))) =
      (\<Sum>it\<leftarrow>itemsToMake s. unat (weight (objects s it)))"
    by (rule arg_cong [where f = sum_list])
  have new: "unat (weight (objects s' newType)) = unat weighting"
    by (simp add: s'_def addItemFactory_weight)
  have items: "itemsToMake s' = newType # itemsToMake s"
    by (simp add: s'_def addItemFactory_fields)
  have nsum: "n = (\<Sum>it\<leftarrow>itemsToMake s'. unat (weight (objects s' it)))"
    using n total old new by (simp add: items)
  have "real (\<Sum>it\<leftarrow>xs. f it) = (\<Sum>it\<leftarrow>xs. real (f it))" for xs and f :: "ptr \<Rightarrow> nat"
    by (induction xs) simp_all
  from this [of "\<lambda>it. unat (weight (objects s' it))" "itemsToMake s'"] nsum
  have "real n = (\<Sum>it\<leftarrow>itemsToMake s'. real (unat (weight (objects s' it))))"
    by simp
  then have Tsum: "T = (\<Sum>it\<leftarrow>itemsToMake s'. W it)"
    by (simp add: T_def W_def)
  have T1: "1 \<le> T"
    using npos by (simp add: T_def)
  have stored: "generationProbability (objects s' it) = Finite (q it)"
    if "it \<in> set (itemsToMake s')" for it
  proof -
    from toFloat_positive [OF T1] have "toFloat T \<noteq> 0"
      by simp
    moreover from that have "generationProbability (objects s' it) =
        fdiv (castToFloat (weight (objects s' it))) (castToFloat (totalItemWeighting s'))"
      unfolding s'_def by (rule addItemFactory_generationProbability)
    ultimately show ?thesis
      by (simp add: castToFloat_def q_def W_def T_def n_def)
  qed
  have err: "\<bar>q it - W it / T\<bar> \<le> W it / T / 4194304" for it
    unfolding q_def W_def T_def using npos n64 by (rule quotient_error)
  have "\<bar>(\<Sum>it\<leftarrow>itemsToMake s'. q it) - (\<Sum>it\<leftarrow>itemsToMake s'. W it / T)\<bar>
          \<le> (\<Sum>it\<leftarrow>itemsToMake s'. W it / T / 4194304)"
    by (rule sum_list_error) (intro ballI err)
  moreover have "(\<Sum>it\<leftarrow>xs. W it / T) = (\<Sum>it\<leftarrow>xs. W it) / T" for xs
    by (induction xs) (simp_all add: add_divide_distrib)
  moreover have "(\<Sum>it\<leftarrow>xs. W it / T / 4194304) = (\<Sum>it\<leftarrow>xs. W it) / T / 4194304" for xs
    by (induction xs) (simp_all add: add_divide_distrib)
  ultimately have total_err: "\<bar>(\<Sum>it\<leftarrow>itemsToMake s'. q it) - 1\<bar> \<le> 1 / 4194304"
    using Tsum [symmetric] T1 by simp
  from Tsum stored err total_err show ?thesis
    unfolding Let_def q_def W_def T_def n_def s'_def by blast
qed

theorem generation_probabilities_witness:
  "nullItem \<notin> set (itemsToMake twoKinds) \<and>
   unat (totalItemWeighting twoKinds) =
     (\<Sum>it\<leftarrow>itemsToMake twoKinds. unat (weight (objects twoKinds it))) \<and>
   unat (totalItemWeighting twoKinds) + unat (1 :: u32int) < 2 ^ 64 \<and>
   0 < unat (totalItemWeighting twoKinds) + unat (1 :: u32int) \<and>
   (let T = real (unat (totalItemWeighting threeKinds));
        W = (\<lambda>it. real (unat (weight (objects threeKinds it))));
        q = (\<lambda>it. toFloat (toFloat (W it) / toFloat T))
    in T = (\<Sum>it\<leftarrow>itemsToMake threeKinds. W it) \<and>
       (\<forall>it \<in> set (itemsToMake threeKinds).
          generationProbability (objects threeKinds it) = Finite (q it) \<and>
          \<bar>q it - W it / T\<bar> \<le> W it / T / 4194304) \<and>
       \<bar>(\<Sum>it\<leftarrow>itemsToMake threeKinds. q it) - 1\<bar> \<le> 1 / 4194304)"
proof -
  have fresh: "nullItem \<notin> set (itemsToMake twoKinds)"
    by (simp add: registry_simps example_defs)
  have total: "unat (totalItemWeighting twoKinds) =
      (\<Sum>it\<leftarrow>itemsToMake twoKinds. unat (weight (objects twoKinds it)))"
    by (simp add: registry_simps example_defs)
  have nowrap: "unat (totalItemWeighting twoKinds) + unat (1 :: u32int) < 2 ^ 64"
    by (simp add: registry_simps)
  have positive: "0 < unat (totalItemWeighting twoKinds) + unat (1 :: u32int)"
    by (simp add: registry_simps)
  from generation_probabilities [OF fresh total nowrap positive] fresh total nowrap positive
  show ?thesis
    unfolding threeKinds_def Let_def by blast
qed

end
